theory Spec2Isabelle
  imports Complex_Main "HOL-Library.Sublist"
begin

section \<open>Python values used by moneez.py\<close>

text \<open>
  Strings are lists of 8-bit characters and the text is taken to be ASCII: the case
  mapping, the white space and the word characters below are the ASCII ones. Amounts are
  Python floats in the source; here they are the exact decimal numbers (\<open>rat\<close>) the floats
  stand for, so sums are exact and rounding is outside the model.
\<close>

datatype error =
    AttributeError
  | TypeError
  | ValueError
  | IndexError
  | FileNotFoundError
  | SystemExit "int option"

text \<open>The status the interpreter exits with when the exception reaches the top level:
  \<open>sys.exit()\<close> carries \<open>None\<close> and exits with 0, \<open>sys.exit(n)\<close> exits with the low
  byte of \<open>n\<close>, an uncaught exception with 1.\<close>

fun exit_status :: "error \<Rightarrow> int" where
  "exit_status (SystemExit None) = 0"
| "exit_status (SystemExit (Some n)) = n mod 256"
| "exit_status e = 1"

subsection \<open>\<open>str.lower\<close> and the \<open>in\<close> operator\<close>

definition upper_chars :: string where
  "upper_chars = ''ABCDEFGHIJKLMNOPQRSTUVWXYZ''"

definition lower_chars :: string where
  "lower_chars = ''abcdefghijklmnopqrstuvwxyz''"


definition lower_char :: "char \<Rightarrow> char" where
  "lower_char c = (case map_of (zip upper_chars lower_chars) c of Some d \<Rightarrow> d | None \<Rightarrow> c)"

definition lower :: "string \<Rightarrow> string" where
  "lower s = map lower_char s"

text \<open>\<open>kw in s\<close> on strings: \<open>kw\<close> starts at some position of \<open>s\<close>.\<close>

fun str_in :: "string \<Rightarrow> string \<Rightarrow> bool" where
  "str_in kw [] = (kw = [])"
| "str_in kw (c # cs) = (prefix kw (c # cs) \<or> str_in kw cs)"

section \<open>The Payment class\<close>

record datetime =
  year :: int
  month :: int
  day :: int

record payment =
  usage :: "string option"
  payment_type :: "string option"
  bic :: "string option"
  iban :: "string option"
  name :: "string option"
  amount :: "rat option"
  date :: "datetime option"
  amount_left :: "rat option"
  innate_category :: "string option"
  category :: "string option"
  relevant_for_tax :: "string option"

definition Payment :: payment where
  "Payment = \<lparr>usage = None, payment_type = None, bic = None, iban = None, name = None,
     amount = None, date = None, amount_left = None, innate_category = None,
     category = None, relevant_for_tax = None\<rparr>"

section \<open>associate\_category\<close>

text \<open>
  \<open>known_ibans\<close> and \<open>keywords\<close> are the dictionaries \<open>JSON["ibans"]\<close> and
  \<open>JSON["keywords"]\<close>. The first is only looked up, so it is a map; the second is iterated,
  so it is the list of its items in the dictionary's order. The loop
  \<open>for kw in keywords\<close> with its early \<open>return\<close> is \<open>scan_keywords\<close>; \<open>None\<close> means
  the loop ran to its end.
\<close>

fun scan_keywords :: "(string \<times> string) list \<Rightarrow> string \<Rightarrow> string \<Rightarrow> string option" where
  "scan_keywords [] nm us = None"
| "scan_keywords ((kw, cat) # kws) nm us =
     (if str_in kw nm \<or> str_in kw us then Some cat else scan_keywords kws nm us)"

definition associate_category ::
  "(string \<rightharpoonup> string) \<Rightarrow> (string \<times> string) list \<Rightarrow> payment \<Rightarrow> error + payment" where
  "associate_category known_ibans keywords p =
     (let p1 = p\<lparr>category := Some ''Unknown''\<rparr> in
      case (case iban p1 of None \<Rightarrow> None | Some i \<Rightarrow> known_ibans i) of
        Some cat \<Rightarrow> Inr (p1\<lparr>category := Some cat\<rparr>)
      | None \<Rightarrow>
          (case name p1 of
             None \<Rightarrow> Inl AttributeError
           | Some n \<Rightarrow>
               (case usage p1 of
                  None \<Rightarrow> Inl AttributeError
                | Some u \<Rightarrow>
                    (case scan_keywords keywords (lower n) (lower u) of
                       Some cat \<Rightarrow> Inr (p1\<lparr>category := Some cat\<rparr>)
                     | None \<Rightarrow> Inr p1))))"

section \<open>process\_payments\<close>

text \<open>
  The module's two globals. \<open>PAYMENTS_BY_YEAR\<close> is a \<open>defaultdict\<close> whose missing
  entries are made on first access as twelve empty lists. A function that changes the
  globals returns \<open>Inr\<close> the new state, or \<open>Inl\<close> the exception together with the state at
  the moment it was raised.
\<close>

record state =
  ALL_PAYMENTS :: "payment list"
  PAYMENTS_BY_YEAR :: "int \<rightharpoonup> payment list list"

definition init_state :: state where
  "init_state = \<lparr>ALL_PAYMENTS = [], PAYMENTS_BY_YEAR = Map.empty\<rparr>"

type_synonym run = "(error \<times> state) + state"

text \<open>Indexing a list of length \<open>n\<close> with \<open>i\<close>: a negative index counts from the end.\<close>

definition py_index :: "nat \<Rightarrow> int \<Rightarrow> error + nat" where
  "py_index n i =
     (if 0 \<le> i \<and> i < int n then Inr (nat i)
      else if - int n \<le> i \<and> i < 0 then Inr (nat (i + int n))
      else Inl IndexError)"

text \<open>The first loop of \<open>process_payments\<close>: \<open>for p in payments: associate_category(p)\<close>.\<close>

fun associate_all ::
  "(string \<rightharpoonup> string) \<Rightarrow> (string \<times> string) list \<Rightarrow> payment list \<Rightarrow> error + payment list" where
  "associate_all known_ibans keywords [] = Inr []"
| "associate_all known_ibans keywords (p # ps) =
     (case associate_category known_ibans keywords p of
        Inl e \<Rightarrow> Inl e
      | Inr p' \<Rightarrow>
          (case associate_all known_ibans keywords ps of
             Inl e \<Rightarrow> Inl e
           | Inr ps' \<Rightarrow> Inr (p' # ps')))"

text \<open>One round of the second loop: \<open>PAYMENTS_BY_YEAR[year][month - 1].append(p)\<close>.\<close>

definition bucket_append :: "state \<Rightarrow> payment \<Rightarrow> run" where
  "bucket_append s p =
     (case date p of
        None \<Rightarrow> Inl (AttributeError, s)
      | Some d \<Rightarrow>
          (let months = (case PAYMENTS_BY_YEAR s (year d) of
                           None \<Rightarrow> replicate 12 []
                         | Some ms \<Rightarrow> ms);
               s1 = s\<lparr>PAYMENTS_BY_YEAR := (PAYMENTS_BY_YEAR s)(year d \<mapsto> months)\<rparr>
           in case py_index (length months) (month d - 1) of
                Inl e \<Rightarrow> Inl (e, s1)
              | Inr k \<Rightarrow>
                  Inr (s\<lparr>PAYMENTS_BY_YEAR :=
                    (PAYMENTS_BY_YEAR s)(year d \<mapsto> months[k := months ! k @ [p]])\<rparr>)))"

fun bucket_all :: "state \<Rightarrow> payment list \<Rightarrow> run" where
  "bucket_all s [] = Inr s"
| "bucket_all s (p # ps) =
     (case bucket_append s p of
        Inl a \<Rightarrow> Inl a
      | Inr s' \<Rightarrow> bucket_all s' ps)"

definition process_payments ::
  "(string \<rightharpoonup> string) \<Rightarrow> (string \<times> string) list \<Rightarrow> state \<Rightarrow> payment list \<Rightarrow> run" where
  "process_payments known_ibans keywords s payments =
     (case associate_all known_ibans keywords payments of
        Inl e \<Rightarrow> Inl (e, s)
      | Inr payments' \<Rightarrow>
          bucket_all (s\<lparr>ALL_PAYMENTS := ALL_PAYMENTS s @ payments'\<rparr>) payments')"

text \<open>The month bucket \<open>PAYMENTS_BY_YEAR[y][m]\<close> as a reader sees it, empty where the
  year has no entry.\<close>

definition bucket :: "state \<Rightarrow> int \<Rightarrow> nat \<Rightarrow> payment list" where
  "bucket s y m =
     (case PAYMENTS_BY_YEAR s y of
        None \<Rightarrow> []
      | Some months \<Rightarrow> if m < length months then months ! m else [])"

text \<open>A payment with a date, whose month is one of the twelve, as every \<open>datetime\<close> has
  it; and the bucket that date names: year key \<open>date.year\<close>, month index
  \<open>date.month - 1\<close>.\<close>

definition dated :: "payment \<Rightarrow> bool" where
  "dated p = (case date p of None \<Rightarrow> False | Some d \<Rightarrow> 1 \<le> month d \<and> month d \<le> 12)"

definition belongs :: "payment \<Rightarrow> int \<Rightarrow> nat \<Rightarrow> bool" where
  "belongs p y m = (case date p of None \<Rightarrow> False | Some d \<Rightarrow> y = year d \<and> int m = month d - 1)"

text \<open>
  What the claims call consistency of the global list and the buckets: every year has
  twelve months; a payment found in a bucket sits in the bucket its date names; every
  payment of the global list is dated; and a payment occurs as often in the bucket its
  date names as in the global list.
\<close>

definition consistent :: "state \<Rightarrow> bool" where
  "consistent s =
     ((\<forall>y months. PAYMENTS_BY_YEAR s y = Some months \<longrightarrow> length months = 12) \<and>
      (\<forall>y m p. p \<in> set (bucket s y m) \<longrightarrow> belongs p y m) \<and>
      (\<forall>p \<in> set (ALL_PAYMENTS s). dated p) \<and>
      (\<forall>p y m. belongs p y m \<longrightarrow>
         count_list (bucket s y m) p = count_list (ALL_PAYMENTS s) p))"

section \<open>gls\_process\_field\<close>

subsection \<open>String methods\<close>

definition is_space :: "char \<Rightarrow> bool" where
  "is_space c = (c \<in> set [CHR 0x09, CHR 0x0A, CHR 0x0B, CHR 0x0C, CHR 0x0D,
     CHR 0x1C, CHR 0x1D, CHR 0x1E, CHR 0x1F, CHR 0x20])"

definition strip :: "string \<Rightarrow> string" where
  "strip s = rev (dropWhile is_space (rev (dropWhile is_space s)))"

definition replace_char :: "char \<Rightarrow> char \<Rightarrow> string \<Rightarrow> string" where
  "replace_char a b s = map (\<lambda>c. if c = a then b else c) s"

definition is_digit :: "char \<Rightarrow> bool" where
  "is_digit c = (c \<in> set ''0123456789'')"

definition is_word :: "char \<Rightarrow> bool" where
  "is_word c = (is_digit c \<or> c \<in> set upper_chars \<or> c \<in> set lower_chars \<or> c = CHR ''_'')"

text \<open>\<open>re.sub("\\W+", " ", value)\<close>: every maximal run of characters that are not word
  characters becomes one space. The flag says that the previous character was part of
  such a run.\<close>

fun sub_nonword :: "bool \<Rightarrow> string \<Rightarrow> string" where
  "sub_nonword r [] = []"
| "sub_nonword r (c # cs) =
     (if is_word c then c # sub_nonword False cs
      else if r then sub_nonword True cs
      else CHR '' '' # sub_nonword True cs)"

text \<open>\<open>s.split(sep)\<close>: \<open>cur\<close> is the piece being read, \<open>k\<close> the number of characters
  of a separator just found that are still to be skipped. An empty separator raises.\<close>

fun split_acc :: "string \<Rightarrow> string \<Rightarrow> nat \<Rightarrow> string \<Rightarrow> string list" where
  "split_acc sep cur k [] = [cur]"
| "split_acc sep cur (Suc k) (c # cs) = split_acc sep cur k cs"
| "split_acc sep cur 0 (c # cs) =
     (if prefix sep (c # cs) then cur # split_acc sep [] (length sep - 1) cs
      else split_acc sep (cur @ [c]) 0 cs)"

definition split :: "string \<Rightarrow> string \<Rightarrow> error + string list" where
  "split s sep = (if sep = [] then Inl ValueError else Inr (split_acc sep [] 0 s))"

subsection \<open>\<open>float\<close> on a string\<close>

text \<open>
  A decimal numeral: white space around it is dropped (the six characters of C's
  \<open>isspace\<close>, fewer than \<open>str.strip\<close> drops), then an optional sign, digits, and
  at most one point, with a digit on at least one side of it. The value is the exact
  decimal. \<open>float\<close> also reads exponents, underscores between digits and the names of
  infinity and NaN: what it does on a string with a character outside the numerals read
  here is the parameter \<open>other\<close>, about which nothing is assumed.
\<close>

definition digit_val :: "char \<Rightarrow> nat" where
  "digit_val c = (case map_of (zip ''0123456789'' [0, 1, 2, 3, 4, 5, 6, 7, 8, 9]) c of Some d \<Rightarrow> d | None \<Rightarrow> 0)"

definition digits_val :: "string \<Rightarrow> nat" where
  "digits_val ds = foldl (\<lambda>n c. 10 * n + digit_val c) 0 ds"

definition unsigned_decimal :: "string \<Rightarrow> error + rat" where
  "unsigned_decimal s =
     (let ip = takeWhile is_digit s; rest = dropWhile is_digit s in
      if rest = [] then
        (if ip = [] then Inl ValueError else Inr (of_nat (digits_val ip)))
      else if hd rest = CHR ''.'' \<and> list_all is_digit (tl rest) \<and> (ip \<noteq> [] \<or> tl rest \<noteq> [])
      then Inr (of_nat (digits_val (ip @ tl rest)) / 10 ^ length (tl rest))
      else Inl ValueError)"

definition is_float_space :: "char \<Rightarrow> bool" where
  "is_float_space c = (c \<in> set [CHR 0x09, CHR 0x0A, CHR 0x0B, CHR 0x0C, CHR 0x0D, CHR 0x20])"

definition py_float :: "(string \<Rightarrow> error + rat) \<Rightarrow> string \<Rightarrow> error + rat" where
  "py_float other s =
     (if \<not> list_all (\<lambda>c. is_digit c \<or> is_float_space c \<or> c \<in> set ''+-.'') s then other s
      else
        (case rev (dropWhile is_float_space (rev (dropWhile is_float_space s))) of
           [] \<Rightarrow> Inl ValueError
         | c # cs \<Rightarrow>
             if c = CHR ''-'' then map_sum id uminus (unsigned_decimal cs)
             else if c = CHR ''+'' then unsigned_decimal cs
             else unsigned_decimal (c # cs)))"

subsection \<open>\<open>datetime.strptime(value, "%d.%m.%Y")\<close>\<close>

text \<open>
  The format is the regular expression
  \<open>(3[0-1]|[1-2]\d|0[1-9]|[1-9]| [1-9])\.(1[0-2]|0[1-9]|[1-9])\.(\d\d\d\d)\<close>, which must match
  the whole string; then the date must exist. Every failure is a \<open>ValueError\<close>. The time of
  day of the result is midnight and is left out.
\<close>

definition parse_day :: "string \<Rightarrow> nat option" where
  "parse_day s =
     (if length s = 2 \<and> list_all is_digit s \<and> 1 \<le> digits_val s \<and> digits_val s \<le> 31
        then Some (digits_val s)
      else if length s = 1 \<and> list_all is_digit s \<and> 1 \<le> digits_val s then Some (digits_val s)
      else if length s = 2 \<and> hd s = CHR '' '' \<and> is_digit (s ! 1) \<and> 1 \<le> digits_val (tl s)
        then Some (digits_val (tl s))
      else None)"

definition parse_month :: "string \<Rightarrow> nat option" where
  "parse_month s =
     (if length s = 2 \<and> list_all is_digit s \<and> 1 \<le> digits_val s \<and> digits_val s \<le> 12
        then Some (digits_val s)
      else if length s = 1 \<and> list_all is_digit s \<and> 1 \<le> digits_val s then Some (digits_val s)
      else None)"

definition parse_year :: "string \<Rightarrow> nat option" where
  "parse_year s = (if length s = 4 \<and> list_all is_digit s then Some (digits_val s) else None)"

definition is_leap :: "nat \<Rightarrow> bool" where
  "is_leap y = (y mod 4 = 0 \<and> (y mod 100 \<noteq> 0 \<or> y mod 400 = 0))"

definition days_in_month :: "nat \<Rightarrow> nat \<Rightarrow> nat" where
  "days_in_month y m =
     (if m = 2 then (if is_leap y then 29 else 28)
      else if m \<in> {4, 6, 9, 11} then 30 else 31)"

definition strptime :: "string \<Rightarrow> error + datetime" where
  "strptime s =
     (case split_acc ''.'' [] 0 s of
        [ds, ms, ys] \<Rightarrow>
          (case (parse_day ds, parse_month ms, parse_year ys) of
             (Some d, Some m, Some y) \<Rightarrow>
               if 1 \<le> y \<and> d \<le> days_in_month y m
               then Inr \<lparr>year = int y, month = int m, day = int d\<rparr>
               else Inl ValueError
           | _ \<Rightarrow> Inl ValueError)
      | _ \<Rightarrow> Inl ValueError)"

subsection \<open>The field processor\<close>

text \<open>The \<open>match key\<close> statement, case by case in the order of the source.
  \<open>sys.exit(-1)\<close> and \<open>sys.exit()\<close> raise \<open>SystemExit\<close> with that argument.\<close>

definition ignored_keys :: "string list" where
  "ignored_keys = [''Glaeubiger ID'', ''Mandatsreferenz'', ''Valutadatum'',
     ''Bezeichnung Auftragskonto'', ''IBAN Auftragskonto'', ''BIC Auftragskonto'',
     ''Bankname Auftragskonto'']"

definition gls_process_field ::
  "(string \<Rightarrow> error + rat) \<Rightarrow> payment \<Rightarrow> string \<Rightarrow> string \<Rightarrow> error + payment" where
  "gls_process_field other p key val =
     (if key = ''Buchungstag'' then
        (case strptime val of Inl e \<Rightarrow> Inl e | Inr d \<Rightarrow> Inr (p\<lparr>date := Some d\<rparr>))
      else if key = ''Name Zahlungsbeteiligter'' then Inr (p\<lparr>name := Some val\<rparr>)
      else if key = ''IBAN Zahlungsbeteiligter'' then Inr (p\<lparr>iban := Some val\<rparr>)
      else if key = ''BIC (SWIFT-Code) Zahlungsbeteiligter'' then Inr (p\<lparr>bic := Some val\<rparr>)
      else if key = ''Buchungstext'' then Inr (p\<lparr>payment_type := Some val\<rparr>)
      else if key = ''Verwendungszweck'' then Inr (p\<lparr>usage := Some (sub_nonword False val)\<rparr>)
      else if key = ''Betrag'' then
        (case py_float other (replace_char CHR '','' CHR ''.'' val) of
           Inl e \<Rightarrow> Inl e
         | Inr x \<Rightarrow> Inr (p\<lparr>amount := Some x\<rparr>))
      else if key = ''Waehrung'' then
        (if val \<noteq> ''EUR'' then Inl (SystemExit (Some (- 1))) else Inr p)
      else if key = ''Saldo nach Buchung'' then
        (case py_float other (replace_char CHR '','' CHR ''.'' val) of
           Inl e \<Rightarrow> Inl e
         | Inr x \<Rightarrow> Inr (p\<lparr>amount_left := Some x\<rparr>))
      else if key = ''Bemerkung'' then
        (if strip val \<noteq> [] then Inl (SystemExit None) else Inr p)
      else if key = ''Kategorie'' then Inr (p\<lparr>innate_category := Some val\<rparr>)
      else if key = ''Steuerrelevant'' then Inr (p\<lparr>relevant_for_tax := Some val\<rparr>)
      else if key \<in> set ignored_keys then Inr p
      else Inl (SystemExit (Some (- 1))))"

section \<open>process\_csv\<close>

text \<open>\<open>kv[k] = v\<close> on a dictionary kept as the list of its items: a key already there
  keeps its place and takes the new value, a new key goes to the end.\<close>

fun dict_set :: "('k \<times> 'v) list \<Rightarrow> 'k \<Rightarrow> 'v \<Rightarrow> ('k \<times> 'v) list" where
  "dict_set [] k v = [(k, v)]"
| "dict_set ((k', v') # kvs) k v =
     (if k' = k then (k', v) # kvs else (k', v') # dict_set kvs k v)"

text \<open>\<open>for index, value in enumerate(row): kv[keys[index]] = value\<close>; a row longer than
  the header raises \<open>IndexError\<close>.\<close>

fun key_row ::
  "string list \<Rightarrow> (string \<times> string) list \<Rightarrow> nat \<Rightarrow> string list \<Rightarrow> error + (string \<times> string) list" where
  "key_row keys kv index [] = Inr kv"
| "key_row keys kv index (v # vs) =
     (if index < length keys then key_row keys (dict_set kv (keys ! index) v) (Suc index) vs
      else Inl IndexError)"

fun key_rows :: "string list \<Rightarrow> string list list \<Rightarrow> error + (string \<times> string) list list" where
  "key_rows keys [] = Inr []"
| "key_rows keys (r # rs) =
     (case key_row keys [] 0 r of
        Inl e \<Rightarrow> Inl e
      | Inr kv \<Rightarrow>
          (case key_rows keys rs of
             Inl e \<Rightarrow> Inl e
           | Inr kvs \<Rightarrow> Inr (kv # kvs)))"

text \<open>The value of the variable \<open>field_processor\<close>: the function \<open>gls_process_field\<close>, or
  the string of the configuration, which cannot be called.\<close>

datatype field_processor = Gls_process_field | Not_callable string

definition call_processor ::
  "(string \<Rightarrow> error + rat) \<Rightarrow> field_processor \<Rightarrow> payment \<Rightarrow> string \<Rightarrow> string \<Rightarrow> error + payment" where
  "call_processor other fp p key val =
     (case fp of
        Gls_process_field \<Rightarrow> gls_process_field other p key val
      | Not_callable _ \<Rightarrow> Inl TypeError)"

text \<open>\<open>for key, value in row.items(): field_processor(payment, key, value)\<close>\<close>

fun process_fields ::
  "(string \<Rightarrow> error + rat) \<Rightarrow> field_processor \<Rightarrow> payment \<Rightarrow> (string \<times> string) list \<Rightarrow>
     error + payment" where
  "process_fields other fp p [] = Inr p"
| "process_fields other fp p ((key, val) # kvs) =
     (case call_processor other fp p key val of
        Inl e \<Rightarrow> Inl e
      | Inr p' \<Rightarrow> process_fields other fp p' kvs)"

text \<open>\<open>for payment, row in zip(payments, rows_keyed)\<close>, each payment a fresh \<open>Payment()\<close>.\<close>

fun process_rows ::
  "(string \<Rightarrow> error + rat) \<Rightarrow> field_processor \<Rightarrow> (string \<times> string) list list \<Rightarrow>
     error + payment list" where
  "process_rows other fp [] = Inr []"
| "process_rows other fp (row # rows) =
     (case process_fields other fp Payment row of
        Inl e \<Rightarrow> Inl e
      | Inr p \<Rightarrow>
          (case process_rows other fp rows of
             Inl e \<Rightarrow> Inl e
           | Inr ps \<Rightarrow> Inr (p # ps)))"

text \<open>The files are the map \<open>fs\<close> from a path to its text; a path outside it cannot be
  read. \<open>read_rows_keyed\<close> is the first half of \<open>process_csv\<close>, from \<open>read_text\<close> to the
  list \<open>rows_keyed\<close> of one dictionary for each data row.\<close>

definition read_rows_keyed ::
  "(string \<rightharpoonup> string) \<Rightarrow> string \<Rightarrow> string \<Rightarrow> string \<Rightarrow> error + (string \<times> string) list list" where
  "read_rows_keyed fs file_path col_sep row_sep =
     (case fs file_path of
        None \<Rightarrow> Inl FileNotFoundError
      | Some text \<Rightarrow>
          (case split (strip text) row_sep of
             Inl e \<Rightarrow> Inl e
           | Inr lines \<Rightarrow>
               if col_sep = [] then Inl ValueError
               else
                 (case map (split_acc col_sep [] 0) lines of
                    [] \<Rightarrow> Inl IndexError
                  | keys # data \<Rightarrow> key_rows keys data)))"

definition process_csv ::
  "(string \<Rightarrow> error + rat) \<Rightarrow> (string \<rightharpoonup> string) \<Rightarrow> (string \<times> string) list \<Rightarrow>
     (string \<rightharpoonup> string) \<Rightarrow> state \<Rightarrow> string \<Rightarrow> string \<Rightarrow> string \<Rightarrow> field_processor \<Rightarrow> run" where
  "process_csv other known_ibans keywords fs s file_path col_sep row_sep fp =
     (case read_rows_keyed fs file_path col_sep row_sep of
        Inl e \<Rightarrow> Inl (e, s)
      | Inr rows_keyed \<Rightarrow>
          (case process_rows other fp rows_keyed of
             Inl e \<Rightarrow> Inl (e, s)
           | Inr payments \<Rightarrow> process_payments known_ibans keywords s payments))"

section \<open>process\_all\_input\_files\<close>

text \<open>One entry of \<open>JSON["input files"]\<close>; the three optional keys are \<open>columns\<close>,
  \<open>rows\<close> and \<open>field processor\<close>.\<close>

record file_info =
  fi_file :: string
  fi_columns :: "string option"
  fi_rows :: "string option"
  fi_field_processor :: "string option"

text \<open>The \<open>match field_processor\<close> statement: the default case prints a message and
  leaves the variable as it is.\<close>

definition resolve_processor :: "string \<Rightarrow> field_processor" where
  "resolve_processor nm = (if nm = ''gls'' then Gls_process_field else Not_callable nm)"

fun process_all_input_files ::
  "(string \<Rightarrow> error + rat) \<Rightarrow> (string \<rightharpoonup> string) \<Rightarrow> (string \<times> string) list \<Rightarrow>
     (string \<rightharpoonup> string) \<Rightarrow> state \<Rightarrow> file_info list \<Rightarrow> run" where
  "process_all_input_files other known_ibans keywords fs s [] = Inr s"
| "process_all_input_files other known_ibans keywords fs s (fi # fis) =
     (let col_sep = (case fi_columns fi of Some c \<Rightarrow> c | None \<Rightarrow> '';'');
          row_sep = (case fi_rows fi of Some r \<Rightarrow> r | None \<Rightarrow> [CHR 0x0A]);
          fp = resolve_processor (case fi_field_processor fi of Some f \<Rightarrow> f | None \<Rightarrow> ''gls'')
      in case process_csv other known_ibans keywords fs s (fi_file fi) col_sep row_sep fp of
           Inl a \<Rightarrow> Inl a
         | Inr s' \<Rightarrow> process_all_input_files other known_ibans keywords fs s' fis)"

section \<open>overview\_year\<close>













section \<open>Strings and the keyword scan: lemmas\<close>




lemma str_in_sublist: "str_in kw s \<longleftrightarrow> sublist kw s"
  by (induction s) (simp_all add: sublist_Cons_right)



lemma scan_keywords_None:
  "scan_keywords kws nm us = None \<longleftrightarrow> (\<forall>(kw, c) \<in> set kws. \<not> str_in kw nm \<and> \<not> str_in kw us)"
  by (induction kws nm us rule: scan_keywords.induct) auto

lemma scan_keywords_first:
  "\<forall>(k, c') \<in> set pre. \<not> str_in k nm \<and> \<not> str_in k us \<Longrightarrow> str_in kw nm \<or> str_in kw us \<Longrightarrow>
   scan_keywords (pre @ (kw, c) # post) nm us = Some c"
  by (induction pre) auto

lemma scan_keywords_Some:
  "scan_keywords kws nm us = Some c \<Longrightarrow>
     \<exists>pre kw post. kws = pre @ (kw, c) # post \<and> (str_in kw nm \<or> str_in kw us) \<and>
        (\<forall>(k, c') \<in> set pre. \<not> str_in k nm \<and> \<not> str_in k us)"
proof (induction kws nm us rule: scan_keywords.induct)
  case (1 nm us)
  then show ?case by simp
next
  case (2 kw cat kws nm us)
  show ?case
  proof (cases "str_in kw nm \<or> str_in kw us")
    case True
    with 2 have "cat = c" by simp
    with True show ?thesis
      by (intro exI [of _ "[]"] exI [of _ kw] exI [of _ kws]) simp
  next
    case False
    with 2 obtain pre k post where *: "kws = pre @ (k, c) # post"
        "str_in k nm \<or> str_in k us"
        "\<forall>(k, c') \<in> set pre. \<not> str_in k nm \<and> \<not> str_in k us"
      by auto
    with False show ?thesis
      by (intro exI [of _ "(kw, cat) # pre"] exI [of _ k] exI [of _ post]) simp
  qed
qed



section \<open>Categorisation: the claims\<close>

text \<open>
  C1 (as amended). After a categorisation that returns, the category is set, and it is a
  non-empty string whenever no category name of the two configured dictionaries is the
  empty string. When the payment's IBAN is a key of \<open>known_ibans\<close> the categorisation
  always returns and the category is the one mapped to that IBAN, whatever the keywords,
  the name and the usage text are.
\<close>

theorem associate_category_iban_precedence:
  "(iban p = Some i \<and> known_ibans i = Some c \<longrightarrow>
      associate_category known_ibans keywords p = Inr (p\<lparr>category := Some c\<rparr>)) \<and>
   (associate_category known_ibans keywords p = Inr p' \<longrightarrow>
      (\<exists>c'. category p' = Some c' \<and>
         ((\<forall>cat \<in> ran known_ibans \<union> snd ` set keywords. cat \<noteq> []) \<longrightarrow> c' \<noteq> [])))"
proof (intro conjI impI)
  assume "iban p = Some i \<and> known_ibans i = Some c"
  then show "associate_category known_ibans keywords p = Inr (p\<lparr>category := Some c\<rparr>)"
    by (simp add: associate_category_def Let_def)
next
  assume ok: "associate_category known_ibans keywords p = Inr p'"
  show "\<exists>c'. category p' = Some c' \<and>
         ((\<forall>cat \<in> ran known_ibans \<union> snd ` set keywords. cat \<noteq> []) \<longrightarrow> c' \<noteq> [])"
  proof (cases "case iban p of None \<Rightarrow> None | Some i \<Rightarrow> known_ibans i")
    case (Some cat)
    then have "cat \<in> ran known_ibans"
      by (auto simp: ran_def split: option.splits)
    moreover from Some ok have "category p' = Some cat"
      by (auto simp: associate_category_def Let_def)
    ultimately show ?thesis by auto
  next
    case None
    with ok obtain n u where nu: "name p = Some n" "usage p = Some u"
      by (auto simp: associate_category_def Let_def split: option.splits)
    show ?thesis
    proof (cases "scan_keywords keywords (lower n) (lower u)")
      case None': None
      with None nu ok have "category p' = Some ''Unknown''"
        by (auto simp: associate_category_def Let_def)
      then show ?thesis by simp
    next
      case (Some cat)
      from scan_keywords_Some [OF Some] have "cat \<in> snd ` set keywords"
        by force
      moreover from Some None nu ok have "category p' = Some cat"
        by (auto simp: associate_category_def Let_def)
      ultimately show ?thesis by auto
    qed
  qed
qed

theorem associate_category_iban_precedence_witness:
  "associate_category [''DE00'' \<mapsto> ''Salary''] [(''rewe'', ''Food'')]
     (Payment\<lparr>iban := Some ''DE00'', name := Some ''REWE'', usage := Some ''rewe markt''\<rparr>) =
   Inr (Payment\<lparr>iban := Some ''DE00'', name := Some ''REWE'', usage := Some ''rewe markt'',
     category := Some ''Salary''\<rparr>) \<and>
   (\<exists>c'. category (Payment\<lparr>iban := Some ''DE00'', name := Some ''REWE'',
       usage := Some ''rewe markt'', category := Some ''Salary''\<rparr>) = Some c' \<and> c' \<noteq> [])"
proof -
  let ?p = "Payment\<lparr>iban := Some ''DE00'', name := Some ''REWE'', usage := Some ''rewe markt''\<rparr>"
  let ?kb = "[''DE00'' \<mapsto> ''Salary'']"
  let ?kws = "[(''rewe'', ''Food'')]"
  note precedence = associate_category_iban_precedence
    [of ?p "''DE00''" ?kb "''Salary''" ?kws "?p\<lparr>category := Some ''Salary''\<rparr>"]
  have key: "iban ?p = Some ''DE00'' \<and> ?kb ''DE00'' = Some ''Salary''"
    by (simp add: Payment_def)
  from precedence [THEN conjunct1, THEN mp, OF key]
  have run: "associate_category ?kb ?kws ?p = Inr (?p\<lparr>category := Some ''Salary''\<rparr>)" .
  have names: "\<forall>cat \<in> ran ?kb \<union> snd ` set ?kws. cat \<noteq> []"
    by simp
  from precedence [THEN conjunct2, THEN mp, OF run]
  obtain c' where "category (?p\<lparr>category := Some ''Salary''\<rparr>) = Some c'"
    and "(\<forall>cat \<in> ran ?kb \<union> snd ` set ?kws. cat \<noteq> []) \<longrightarrow> c' \<noteq> []"
    by blast
  with names have "\<exists>c'. category (?p\<lparr>category := Some ''Salary''\<rparr>) = Some c' \<and> c' \<noteq> []"
    by blast
  with run show ?thesis
    by simp
qed

text \<open>
  C1 as stated fails: a configuration may map an IBAN to the empty string, and the
  category is then the empty string.
\<close>

theorem category_empty_counterexample:
  "associate_category [''DE00'' \<mapsto> ''''] [] (Payment\<lparr>iban := Some ''DE00''\<rparr>) =
     Inr (Payment\<lparr>iban := Some ''DE00'', category := Some ''''\<rparr>)"
  by (simp add: associate_category_def Let_def Payment_def)

text \<open>
  C2. For a payment whose IBAN is not a key of \<open>known_ibans\<close> (and whose name and usage
  are set, without which \<open>lower\<close> raises), the categorisation returns, and the category is
  that of the first keyword, in the order of the dictionary, that is a substring of the
  lowered name or of the lowered usage; it is "Unknown" when no keyword is.
\<close>

theorem associate_category_first_keyword:
  assumes "\<forall>i. iban p = Some i \<longrightarrow> known_ibans i = None"
    and "name p = Some n" and "usage p = Some u"
  shows "\<exists>c. associate_category known_ibans keywords p = Inr (p\<lparr>category := Some c\<rparr>) \<and>
     ((\<exists>pre kw post. keywords = pre @ (kw, c) # post \<and>
          (sublist kw (lower n) \<or> sublist kw (lower u)) \<and>
          (\<forall>(k, c') \<in> set pre. \<not> sublist k (lower n) \<and> \<not> sublist k (lower u))) \<or>
      (c = ''Unknown'' \<and>
          (\<forall>(k, c') \<in> set keywords. \<not> sublist k (lower n) \<and> \<not> sublist k (lower u))))"
proof -
  from assms(1) have nokey: "(case iban p of None \<Rightarrow> None | Some i \<Rightarrow> known_ibans i) = None"
    by (simp split: option.splits)
  show ?thesis
  proof (cases "scan_keywords keywords (lower n) (lower u)")
    case None
    with nokey assms(2,3)
    have "associate_category known_ibans keywords p = Inr (p\<lparr>category := Some ''Unknown''\<rparr>)"
      by (simp add: associate_category_def Let_def)
    moreover from None
    have "\<forall>(k, c') \<in> set keywords. \<not> sublist k (lower n) \<and> \<not> sublist k (lower u)"
      by (simp add: scan_keywords_None str_in_sublist)
    ultimately show ?thesis by blast
  next
    case (Some c)
    with nokey assms(2,3)
    have "associate_category known_ibans keywords p = Inr (p\<lparr>category := Some c\<rparr>)"
      by (simp add: associate_category_def Let_def)
    moreover from scan_keywords_Some [OF Some]
    have "\<exists>pre kw post. keywords = pre @ (kw, c) # post \<and>
          (sublist kw (lower n) \<or> sublist kw (lower u)) \<and>
          (\<forall>(k, c') \<in> set pre. \<not> sublist k (lower n) \<and> \<not> sublist k (lower u))"
      by (simp add: str_in_sublist)
    ultimately show ?thesis by blast
  qed
qed

theorem associate_category_first_keyword_witness:
  "(\<exists>c. associate_category [''DE00'' \<mapsto> ''Salary'']
          [(''miete'', ''Rent''), (''rewe'', ''Food''), (''markt'', ''Shop'')]
          (Payment\<lparr>iban := Some ''DE99'', name := Some ''REWE Markt'', usage := Some ''Einkauf''\<rparr>) =
        Inr (Payment\<lparr>iban := Some ''DE99'', name := Some ''REWE Markt'', usage := Some ''Einkauf'',
          category := Some c\<rparr>) \<and>
        c = ''Food'') \<and>
   associate_category [''DE00'' \<mapsto> ''Salary''] [(''miete'', ''Rent'')]
       (Payment\<lparr>iban := Some ''DE99'', name := Some ''REWE Markt'', usage := Some ''Einkauf''\<rparr>) =
     Inr (Payment\<lparr>iban := Some ''DE99'', name := Some ''REWE Markt'', usage := Some ''Einkauf'',
       category := Some ''Unknown''\<rparr>)"
proof -
  let ?p = "Payment\<lparr>iban := Some ''DE99'', name := Some ''REWE Markt'', usage := Some ''Einkauf''\<rparr>"
  let ?kb = "[''DE00'' \<mapsto> ''Salary'']"
  have h1: "\<forall>i. iban ?p = Some i \<longrightarrow> ?kb i = None"
    by (simp add: Payment_def)
  have h2: "name ?p = Some ''REWE Markt''" and h3: "usage ?p = Some ''Einkauf''"
    by (simp_all add: Payment_def)
  have low: "lower ''REWE Markt'' = ''rewe markt''" "lower ''Einkauf'' = ''einkauf''"
    by (simp_all add: lower_def lower_char_def upper_chars_def lower_chars_def)
  have no1: "\<not> sublist ''miete'' ''rewe markt''" "\<not> sublist ''miete'' ''einkauf''"
    by (simp_all flip: str_in_sublist)
  from associate_category_first_keyword [OF h1 h2 h3,
      of "[(''miete'', ''Rent''), (''rewe'', ''Food''), (''markt'', ''Shop'')]"]
  obtain c where c: "associate_category ?kb
        [(''miete'', ''Rent''), (''rewe'', ''Food''), (''markt'', ''Shop'')] ?p =
      Inr (?p\<lparr>category := Some c\<rparr>)"
    by blast
  moreover have "associate_category ?kb
        [(''miete'', ''Rent''), (''rewe'', ''Food''), (''markt'', ''Shop'')] ?p =
      Inr (?p\<lparr>category := Some ''Food''\<rparr>)"
    by (simp add: associate_category_def Let_def Payment_def low)
  ultimately have "c = ''Food''"
    by (simp add: Payment_def)
  with c have first: "\<exists>c. associate_category ?kb
        [(''miete'', ''Rent''), (''rewe'', ''Food''), (''markt'', ''Shop'')] ?p =
      Inr (?p\<lparr>category := Some c\<rparr>) \<and> c = ''Food''"
    by blast
  from associate_category_first_keyword [OF h1 h2 h3, of "[(''miete'', ''Rent'')]"]
  obtain c' where c': "associate_category ?kb [(''miete'', ''Rent'')] ?p =
      Inr (?p\<lparr>category := Some c'\<rparr>)"
    and "(\<exists>pre kw post. [(''miete'', ''Rent'')] = pre @ (kw, c') # post \<and>
          (sublist kw (lower ''REWE Markt'') \<or> sublist kw (lower ''Einkauf'')) \<and>
          (\<forall>(k, c'') \<in> set pre. \<not> sublist k (lower ''REWE Markt'') \<and>
             \<not> sublist k (lower ''Einkauf''))) \<or>
      (c' = ''Unknown'' \<and>
          (\<forall>(k, c'') \<in> set [(''miete'', ''Rent'')]. \<not> sublist k (lower ''REWE Markt'') \<and>
             \<not> sublist k (lower ''Einkauf'')))"
    by blast
  then have "c' = ''Unknown''"
    using no1 by (auto simp: low Cons_eq_append_conv)
  with c' have "associate_category ?kb [(''miete'', ''Rent'')] ?p =
      Inr (?p\<lparr>category := Some ''Unknown''\<rparr>)"
    by simp
  with first show ?thesis
    by simp
qed



section \<open>The field processor: the claims\<close>

lemma replace_char_idem: "replace_char a b (replace_char a b s) = replace_char a b s"
  by (induction s) (simp_all add: replace_char_def)

lemma float_1234_56: "py_float other ''1234.56'' = Inr (123456 / 100)"
  by (simp add: py_float_def unsigned_decimal_def is_digit_def is_float_space_def
      digits_val_def digit_val_def)

lemma float_minus_12_30: "py_float other ''-12.30'' = Inr (- (1230 / 100))"
  by (simp add: py_float_def unsigned_decimal_def is_digit_def is_float_space_def
      digits_val_def digit_val_def)

lemma float_two_points: "py_float other ''1.234.56'' = Inl ValueError"
  by (simp add: py_float_def unsigned_decimal_def is_digit_def is_float_space_def
      digits_val_def digit_val_def)

text \<open>
  C8. In both amount fields a comma is read as a point is, and nothing else is done to
  the string: "1234,56" is the number 1234.56 and "-12,30" is -12.30, while "1.234,56",
  with a point for the thousands, is no number at all.
\<close>

theorem amount_comma_is_decimal_point:
  "gls_process_field other p ''Betrag'' val =
     gls_process_field other p ''Betrag'' (replace_char CHR '','' CHR ''.'' val) \<and>
   gls_process_field other p ''Saldo nach Buchung'' val =
     gls_process_field other p ''Saldo nach Buchung'' (replace_char CHR '','' CHR ''.'' val) \<and>
   gls_process_field other p ''Betrag'' ''1234,56'' = Inr (p\<lparr>amount := Some (123456 / 100)\<rparr>) \<and>
   gls_process_field other p ''Betrag'' ''-12,30'' = Inr (p\<lparr>amount := Some (- (1230 / 100))\<rparr>) \<and>
   gls_process_field other p ''Saldo nach Buchung'' ''1234,56'' =
     Inr (p\<lparr>amount_left := Some (123456 / 100)\<rparr>) \<and>
   gls_process_field other p ''Saldo nach Buchung'' ''-12,30'' =
     Inr (p\<lparr>amount_left := Some (- (1230 / 100))\<rparr>) \<and>
   gls_process_field other p ''Betrag'' ''1.234,56'' = Inl ValueError \<and>
   gls_process_field other p ''Saldo nach Buchung'' ''1.234,56'' = Inl ValueError"
proof -
  have r1: "replace_char CHR '','' CHR ''.'' ''1234,56'' = ''1234.56''"
    and r2: "replace_char CHR '','' CHR ''.'' ''-12,30'' = ''-12.30''"
    and r3: "replace_char CHR '','' CHR ''.'' ''1.234,56'' = ''1.234.56''"
    by (simp_all add: replace_char_def)
  have "gls_process_field other p ''Betrag'' val =
     gls_process_field other p ''Betrag'' (replace_char CHR '','' CHR ''.'' val)"
    by (simp add: gls_process_field_def replace_char_idem)
  moreover have "gls_process_field other p ''Saldo nach Buchung'' val =
     gls_process_field other p ''Saldo nach Buchung'' (replace_char CHR '','' CHR ''.'' val)"
    by (simp add: gls_process_field_def replace_char_idem)
  moreover have "gls_process_field other p ''Betrag'' ''1234,56'' =
      Inr (p\<lparr>amount := Some (123456 / 100)\<rparr>)"
    by (simp add: gls_process_field_def r1 float_1234_56)
  moreover have "gls_process_field other p ''Betrag'' ''-12,30'' =
      Inr (p\<lparr>amount := Some (- (1230 / 100))\<rparr>)"
    by (simp add: gls_process_field_def r2 float_minus_12_30)
  moreover have "gls_process_field other p ''Saldo nach Buchung'' ''1234,56'' =
      Inr (p\<lparr>amount_left := Some (123456 / 100)\<rparr>)"
    by (simp add: gls_process_field_def r1 float_1234_56)
  moreover have "gls_process_field other p ''Saldo nach Buchung'' ''-12,30'' =
      Inr (p\<lparr>amount_left := Some (- (1230 / 100))\<rparr>)"
    by (simp add: gls_process_field_def r2 float_minus_12_30)
  moreover have "gls_process_field other p ''Betrag'' ''1.234,56'' = Inl ValueError"
    by (simp add: gls_process_field_def r3 float_two_points)
  moreover have "gls_process_field other p ''Saldo nach Buchung'' ''1.234,56'' = Inl ValueError"
    by (simp add: gls_process_field_def r3 float_two_points)
  ultimately show ?thesis
    by blast
qed

text \<open>
  C7 (the code departs from the claim). A remark that is not blank stops the run through
  \<open>sys.exit()\<close>, whose exit status is 0, where the unknown currency and the unknown key
  stop it through \<open>sys.exit(-1)\<close>, whose exit status is 255.
\<close>

theorem remark_exits_with_status_zero:
  "gls_process_field other p ''Bemerkung'' ''x'' = Inl (SystemExit None) \<and>
   exit_status (SystemExit None) = 0 \<and>
   gls_process_field other p ''Waehrung'' ''USD'' = Inl (SystemExit (Some (- 1))) \<and>
   gls_process_field other p ''Spalte'' ''x'' = Inl (SystemExit (Some (- 1))) \<and>
   exit_status (SystemExit (Some (- 1))) = 255"
  by (simp add: gls_process_field_def strip_def is_space_def ignored_keys_def)

section \<open>Reading a file: lemmas\<close>

lemma call_currency:
  "v \<noteq> ''EUR'' \<Longrightarrow>
   call_processor other Gls_process_field p ''Waehrung'' v = Inl (SystemExit (Some (- 1)))"
  by (simp add: call_processor_def gls_process_field_def)

lemma process_fields_currency:
  "(''Waehrung'', v) \<in> set kv \<Longrightarrow> v \<noteq> ''EUR'' \<Longrightarrow>
   \<exists>e. process_fields other Gls_process_field p kv = Inl e"
proof (induction kv arbitrary: p)
  case Nil
  then show ?case by simp
next
  case (Cons a kv)
  obtain key val where a: "a = (key, val)" by (cases a)
  show ?case
  proof (cases "call_processor other Gls_process_field p key val")
    case (Inl e)
    with a show ?thesis by simp
  next
    case (Inr p')
    have "a \<noteq> (''Waehrung'', v)"
    proof
      assume "a = (''Waehrung'', v)"
      with a have "key = ''Waehrung''" and "val = v" by simp_all
      with Cons.prems(2) Inr show False
        by (simp add: call_currency)
    qed
    with Cons.prems have "(''Waehrung'', v) \<in> set kv" by simp
    from Cons.IH [OF this Cons.prems(2)] a Inr show ?thesis by simp
  qed
qed

lemma process_fields_currency_first:
  "process_fields other Gls_process_field p kpre = Inr p' \<Longrightarrow> v \<noteq> ''EUR'' \<Longrightarrow>
   process_fields other Gls_process_field p (kpre @ (''Waehrung'', v) # kpost) =
     Inl (SystemExit (Some (- 1)))"
proof (induction kpre arbitrary: p)
  case Nil
  then show ?case by (simp add: call_currency)
next
  case (Cons a kpre)
  obtain key val where a: "a = (key, val)" by (cases a)
  with Cons show ?case
    by (cases "call_processor other Gls_process_field p key val") simp_all
qed

lemma process_rows_fails:
  "kv \<in> set rows \<Longrightarrow> process_fields other fp Payment kv = Inl e \<Longrightarrow>
   \<exists>e'. process_rows other fp rows = Inl e'"
  by (induction rows) (auto split: sum.splits)

lemma process_rows_first:
  "process_rows other fp pre = Inr ps \<Longrightarrow> process_fields other fp Payment kv = Inl e \<Longrightarrow>
   process_rows other fp (pre @ kv # post) = Inl e"
  by (induction pre arbitrary: ps) (auto split: sum.splits)

lemma strptime_2023_01_05: "strptime ''05.01.2023'' = Inr \<lparr>year = 2023, month = 1, day = 5\<rparr>"
  by (simp add: strptime_def parse_day_def parse_month_def parse_year_def is_digit_def
      digits_val_def digit_val_def days_in_month_def is_leap_def)

lemma strptime_gestern: "strptime ''gestern'' = Inl ValueError"
  by (simp add: strptime_def)

lemma read_salary_file:
  "fs ''a.csv'' = Some ''Buchungstag;IBAN Zahlungsbeteiligter;Waehrung\<newline>05.01.2023;DE00;EUR\<newline>'' \<Longrightarrow>
   read_rows_keyed fs ''a.csv'' '';'' ''\<newline>'' =
     Inr [[(''Buchungstag'', ''05.01.2023''), (''IBAN Zahlungsbeteiligter'', ''DE00''),
           (''Waehrung'', ''EUR'')]]"
  by (simp add: read_rows_keyed_def split_def strip_def is_space_def)

lemma read_dollar_file:
  "fs ''b.csv'' = Some ''Buchungstag;Waehrung\<newline>gestern;USD'' \<Longrightarrow>
   read_rows_keyed fs ''b.csv'' '';'' ''\<newline>'' =
     Inr [[(''Buchungstag'', ''gestern''), (''Waehrung'', ''USD'')]]"
  by (simp add: read_rows_keyed_def split_def strip_def is_space_def)

lemma read_currency_file:
  "fs ''c.csv'' = Some ''Waehrung\<newline>USD'' \<Longrightarrow>
   read_rows_keyed fs ''c.csv'' '';'' ''\<newline>'' = Inr [[(''Waehrung'', ''USD'')]]"
  by (simp add: read_rows_keyed_def split_def strip_def is_space_def)

lemma read_header_file:
  "fs ''h.csv'' = Some ''Buchungstag;Betrag'' \<Longrightarrow>
   read_rows_keyed fs ''h.csv'' '';'' ''\<newline>'' = Inr []"
  by (simp add: read_rows_keyed_def split_def strip_def is_space_def)

lemma read_one_row_file:
  "fs ''r.csv'' = Some ''Buchungstag\<newline>05.01.2023'' \<Longrightarrow>
   read_rows_keyed fs ''r.csv'' '';'' ''\<newline>'' = Inr [[(''Buchungstag'', ''05.01.2023'')]]"
  by (simp add: read_rows_keyed_def split_def strip_def is_space_def)

lemma process_salary_file:
  assumes "fs ''a.csv'' = Some ''Buchungstag;IBAN Zahlungsbeteiligter;Waehrung\<newline>05.01.2023;DE00;EUR\<newline>''"
  shows "process_csv other [''DE00'' \<mapsto> ''Salary''] [] fs init_state ''a.csv'' '';'' ''\<newline>''
       Gls_process_field =
     Inr \<lparr>ALL_PAYMENTS =
            [Payment\<lparr>date := Some \<lparr>year = 2023, month = 1, day = 5\<rparr>, iban := Some ''DE00'',
               category := Some ''Salary''\<rparr>],
          PAYMENTS_BY_YEAR =
            [2023 \<mapsto>
              [[Payment\<lparr>date := Some \<lparr>year = 2023, month = 1, day = 5\<rparr>, iban := Some ''DE00'',
                  category := Some ''Salary''\<rparr>],
               [], [], [], [], [], [], [], [], [], [], []]]\<rparr>"
proof -
  have "process_rows other Gls_process_field
      [[(''Buchungstag'', ''05.01.2023''), (''IBAN Zahlungsbeteiligter'', ''DE00''),
        (''Waehrung'', ''EUR'')]] =
     Inr [Payment\<lparr>date := Some \<lparr>year = 2023, month = 1, day = 5\<rparr>, iban := Some ''DE00''\<rparr>]"
    by (simp add: call_processor_def gls_process_field_def strptime_2023_01_05)
  moreover have "process_payments [''DE00'' \<mapsto> ''Salary''] [] init_state
      [Payment\<lparr>date := Some \<lparr>year = 2023, month = 1, day = 5\<rparr>, iban := Some ''DE00''\<rparr>] =
     Inr \<lparr>ALL_PAYMENTS =
            [Payment\<lparr>date := Some \<lparr>year = 2023, month = 1, day = 5\<rparr>, iban := Some ''DE00'',
               category := Some ''Salary''\<rparr>],
          PAYMENTS_BY_YEAR =
            [2023 \<mapsto>
              [[Payment\<lparr>date := Some \<lparr>year = 2023, month = 1, day = 5\<rparr>, iban := Some ''DE00'',
                  category := Some ''Salary''\<rparr>],
               [], [], [], [], [], [], [], [], [], [], []]]\<rparr>"
    by (simp add: process_payments_def associate_category_def Let_def Payment_def
        bucket_append_def py_index_def init_state_def numeral_eq_Suc)
  ultimately show ?thesis
    using assms by (simp add: process_csv_def read_salary_file)
qed

section \<open>Reading a file: the claims\<close>

text \<open>
  C5 (as amended). When the dictionary of some data row of a file has a \<open>Waehrung\<close> entry
  other than "EUR", \<open>process_csv\<close> with the gls processor does not complete: it raises
  before \<open>process_payments\<close> is called, so the global list and the buckets are those from
  before the file was read and hold no payment of the file. The exception is that of
  \<open>sys.exit(-1)\<close> in the currency branch when the rows before that row are processed
  without an exception and so are the fields before \<open>Waehrung\<close> in the row.
\<close>

theorem currency_aborts_before_ingestion:
  assumes "read_rows_keyed fs file_path col_sep row_sep = Inr rows_keyed"
    and "kv \<in> set rows_keyed" and "(''Waehrung'', v) \<in> set kv" and "v \<noteq> ''EUR''"
  shows "(\<exists>e. process_csv other known_ibans keywords fs s file_path col_sep row_sep
            Gls_process_field = Inl (e, s)) \<and>
     (\<forall>pre post kpre kpost ps p.
        rows_keyed = pre @ kv # post \<and> kv = kpre @ (''Waehrung'', v) # kpost \<and>
        process_rows other Gls_process_field pre = Inr ps \<and>
        process_fields other Gls_process_field Payment kpre = Inr p \<longrightarrow>
        process_csv other known_ibans keywords fs s file_path col_sep row_sep
            Gls_process_field = Inl (SystemExit (Some (- 1)), s))"
proof (intro conjI allI impI)
  from process_fields_currency [OF assms(3,4)]
  obtain e where "process_fields other Gls_process_field Payment kv = Inl e"
    by blast
  from process_rows_fails [OF assms(2) this]
  obtain e' where "process_rows other Gls_process_field rows_keyed = Inl e'"
    by blast
  with assms(1) show "\<exists>e. process_csv other known_ibans keywords fs s file_path col_sep row_sep
            Gls_process_field = Inl (e, s)"
    by (simp add: process_csv_def)
next
  fix pre post kpre kpost ps p
  assume *: "rows_keyed = pre @ kv # post \<and> kv = kpre @ (''Waehrung'', v) # kpost \<and>
        process_rows other Gls_process_field pre = Inr ps \<and>
        process_fields other Gls_process_field Payment kpre = Inr p"
  then have "process_fields other Gls_process_field Payment (kpre @ (''Waehrung'', v) # kpost) =
      Inl (SystemExit (Some (- 1)))"
    using assms(4) by (simp add: process_fields_currency_first)
  with * have "process_fields other Gls_process_field Payment kv = Inl (SystemExit (Some (- 1)))"
    by simp
  with * have "process_rows other Gls_process_field (pre @ kv # post) =
      Inl (SystemExit (Some (- 1)))"
    by (simp add: process_rows_first)
  with * assms(1) show "process_csv other known_ibans keywords fs s file_path col_sep row_sep
            Gls_process_field = Inl (SystemExit (Some (- 1)), s)"
    by (simp add: process_csv_def)
qed

theorem currency_aborts_before_ingestion_witness:
  "process_csv (\<lambda>x. Inl ValueError) Map.empty [] [''c.csv'' \<mapsto> ''Waehrung\<newline>USD''] init_state
     ''c.csv'' '';'' ''\<newline>'' Gls_process_field =
   Inl (SystemExit (Some (- 1)), init_state)"
proof -
  have h1: "read_rows_keyed [''c.csv'' \<mapsto> ''Waehrung\<newline>USD''] ''c.csv'' '';'' ''\<newline>'' =
      Inr [[(''Waehrung'', ''USD'')]]"
    by (simp add: read_currency_file)
  have h2: "[(''Waehrung'', ''USD'')] \<in> set [[(''Waehrung'', ''USD'')]]"
    and h3: "(''Waehrung'', ''USD'') \<in> set [(''Waehrung'', ''USD'')]"
    and h4: "''USD'' \<noteq> ''EUR''"
    by simp_all
  have first: "[[(''Waehrung'', ''USD'')]] = [] @ [(''Waehrung'', ''USD'')] # [] \<and>
      [(''Waehrung'', ''USD'')] = [] @ (''Waehrung'', ''USD'') # [] \<and>
      process_rows (\<lambda>x. Inl ValueError) Gls_process_field [] = Inr [] \<and>
      process_fields (\<lambda>x. Inl ValueError) Gls_process_field Payment [] = Inr Payment"
    by simp
  from currency_aborts_before_ingestion [OF h1 h2 h3 h4, of "\<lambda>x. Inl ValueError"
      Map.empty "[]" init_state] first
  show ?thesis
    by blast
qed

text \<open>
  C5 as stated fails twice. A row whose date cannot be parsed and whose currency is USD
  stops the run with the \<open>ValueError\<close> of the date, which comes first in the row, and
  not with the currency error. And when the file with the USD row is the second input
  file, the payment of the first file is in the global list and in its bucket at the
  moment the run stops.
\<close>

theorem currency_error_counterexample:
  "process_csv (\<lambda>x. Inl ValueError) Map.empty []
       [''b.csv'' \<mapsto> ''Buchungstag;Waehrung\<newline>gestern;USD''] init_state
       ''b.csv'' '';'' ''\<newline>'' Gls_process_field =
     Inl (ValueError, init_state) \<and>
   process_all_input_files (\<lambda>x. Inl ValueError) [''DE00'' \<mapsto> ''Salary''] []
       [''a.csv'' \<mapsto> ''Buchungstag;IBAN Zahlungsbeteiligter;Waehrung\<newline>05.01.2023;DE00;EUR\<newline>'',
        ''c.csv'' \<mapsto> ''Waehrung\<newline>USD'']
       init_state
       [\<lparr>fi_file = ''a.csv'', fi_columns = None, fi_rows = None, fi_field_processor = None\<rparr>,
        \<lparr>fi_file = ''c.csv'', fi_columns = None, fi_rows = None, fi_field_processor = None\<rparr>] =
     Inl (SystemExit (Some (- 1)),
       \<lparr>ALL_PAYMENTS =
            [Payment\<lparr>date := Some \<lparr>year = 2023, month = 1, day = 5\<rparr>, iban := Some ''DE00'',
               category := Some ''Salary''\<rparr>],
          PAYMENTS_BY_YEAR =
            [2023 \<mapsto>
              [[Payment\<lparr>date := Some \<lparr>year = 2023, month = 1, day = 5\<rparr>, iban := Some ''DE00'',
                  category := Some ''Salary''\<rparr>],
               [], [], [], [], [], [], [], [], [], [], []]]\<rparr>)"
proof -
  have "process_csv (\<lambda>x. Inl ValueError) Map.empty []
       [''b.csv'' \<mapsto> ''Buchungstag;Waehrung\<newline>gestern;USD''] init_state
       ''b.csv'' '';'' ''\<newline>'' Gls_process_field =
     Inl (ValueError, init_state)"
    by (simp add: process_csv_def read_dollar_file call_processor_def gls_process_field_def
        strptime_gestern)
  moreover have "process_csv (\<lambda>x. Inl ValueError) [''DE00'' \<mapsto> ''Salary''] []
       [''a.csv'' \<mapsto> ''Buchungstag;IBAN Zahlungsbeteiligter;Waehrung\<newline>05.01.2023;DE00;EUR\<newline>'',
        ''c.csv'' \<mapsto> ''Waehrung\<newline>USD'']
       s ''c.csv'' '';'' ''\<newline>'' Gls_process_field = Inl (SystemExit (Some (- 1)), s)" for s
    by (simp add: process_csv_def read_currency_file call_processor_def gls_process_field_def)
  ultimately show ?thesis
    by (simp add: process_salary_file resolve_processor_def)
qed

text \<open>
  C6 (the code departs from the claim). A field processor name that is not \<open>gls\<close> only
  prints a message. The file is then read with the name itself as the processor: a file
  without data rows is ingested as no payments and the run goes on with the next file,
  and a file with a data row raises \<open>TypeError\<close> when the name is called.
\<close>

theorem unknown_field_processor_goes_on:
  "process_all_input_files other [''DE00'' \<mapsto> ''Salary''] []
       [''h.csv'' \<mapsto> ''Buchungstag;Betrag'',
        ''a.csv'' \<mapsto> ''Buchungstag;IBAN Zahlungsbeteiligter;Waehrung\<newline>05.01.2023;DE00;EUR\<newline>'']
       init_state
       [\<lparr>fi_file = ''h.csv'', fi_columns = None, fi_rows = None, fi_field_processor = Some ''foo''\<rparr>,
        \<lparr>fi_file = ''a.csv'', fi_columns = None, fi_rows = None, fi_field_processor = None\<rparr>] =
     Inr \<lparr>ALL_PAYMENTS =
            [Payment\<lparr>date := Some \<lparr>year = 2023, month = 1, day = 5\<rparr>, iban := Some ''DE00'',
               category := Some ''Salary''\<rparr>],
          PAYMENTS_BY_YEAR =
            [2023 \<mapsto>
              [[Payment\<lparr>date := Some \<lparr>year = 2023, month = 1, day = 5\<rparr>, iban := Some ''DE00'',
                  category := Some ''Salary''\<rparr>],
               [], [], [], [], [], [], [], [], [], [], []]]\<rparr> \<and>
   process_all_input_files other known_ibans keywords [''r.csv'' \<mapsto> ''Buchungstag\<newline>05.01.2023'']
       s [\<lparr>fi_file = ''r.csv'', fi_columns = None, fi_rows = None,
            fi_field_processor = Some ''foo''\<rparr>] =
     Inl (TypeError, s)"
proof -
  have "process_csv other [''DE00'' \<mapsto> ''Salary''] []
       [''h.csv'' \<mapsto> ''Buchungstag;Betrag'',
        ''a.csv'' \<mapsto> ''Buchungstag;IBAN Zahlungsbeteiligter;Waehrung\<newline>05.01.2023;DE00;EUR\<newline>'']
       init_state ''h.csv'' '';'' ''\<newline>'' (Not_callable ''foo'') = Inr init_state"
    by (simp add: process_csv_def read_header_file process_payments_def)
  moreover have "process_csv other known_ibans keywords
       [''r.csv'' \<mapsto> ''Buchungstag\<newline>05.01.2023''] s ''r.csv'' '';'' ''\<newline>''
       (Not_callable ''foo'') = Inl (TypeError, s)"
    by (simp add: process_csv_def read_one_row_file call_processor_def)
  ultimately show ?thesis
    by (simp add: process_salary_file resolve_processor_def)
qed

section \<open>The buckets: lemmas\<close>

lemma associate_category_only_category:
  "associate_category known_ibans keywords p = Inr p' \<Longrightarrow> \<exists>c. p' = p\<lparr>category := Some c\<rparr>"
  by (auto simp: associate_category_def Let_def split: option.splits)

lemma associate_category_date:
  "associate_category known_ibans keywords p = Inr p' \<Longrightarrow> date p' = date p"
  by (auto dest: associate_category_only_category)

lemma associate_all_dated:
  "associate_all known_ibans keywords ps = Inr ps' \<Longrightarrow> \<forall>p \<in> set ps. dated p \<Longrightarrow>
   \<forall>p \<in> set ps'. dated p"
proof (induction ps arbitrary: ps')
  case Nil
  then show ?case by simp
next
  case (Cons p ps)
  from Cons.prems(1) obtain q qs where q: "associate_category known_ibans keywords p = Inr q"
    and qs: "associate_all known_ibans keywords ps = Inr qs" and ps': "ps' = q # qs"
    by (auto split: sum.splits)
  from q Cons.prems(2) have "dated q"
    by (simp add: dated_def associate_category_date)
  moreover from Cons.IH [OF qs] Cons.prems(2) have "\<forall>p \<in> set qs. dated p"
    by simp
  ultimately show ?case
    using ps' by simp
qed

lemma count_list_filter: "P x \<Longrightarrow> count_list (filter P xs) x = count_list xs x"
  by (induction xs) auto

lemma belongs_unique: "belongs p y m \<Longrightarrow> belongs p y' m' \<Longrightarrow> y' = y \<and> m' = m"
  by (auto simp: belongs_def split: option.splits)

lemma dated_belongs:
  "dated p \<Longrightarrow> date p = Some d \<Longrightarrow> belongs p (year d) (nat (month d - 1))"
  by (simp add: dated_def belongs_def)

lemma bucket_append_ok:
  assumes twelve: "\<forall>y months. PAYMENTS_BY_YEAR s y = Some months \<longrightarrow> length months = 12"
    and "dated p"
  shows "\<exists>s'. bucket_append s p = Inr s' \<and> ALL_PAYMENTS s' = ALL_PAYMENTS s \<and>
     (\<forall>y months. PAYMENTS_BY_YEAR s' y = Some months \<longrightarrow> length months = 12) \<and>
     (\<forall>y m. bucket s' y m = bucket s y m @ (if belongs p y m then [p] else []))"
proof -
  from \<open>dated p\<close> obtain d where d: "date p = Some d" and lo: "1 \<le> month d" and hi: "month d \<le> 12"
    by (auto simp: dated_def split: option.splits)
  define months where "months =
    (case PAYMENTS_BY_YEAR s (year d) of None \<Rightarrow> replicate 12 [] | Some ms \<Rightarrow> ms)"
  define k where "k = nat (month d - 1)"
  define s' where "s' = s\<lparr>PAYMENTS_BY_YEAR :=
    (PAYMENTS_BY_YEAR s)(year d \<mapsto> months[k := months ! k @ [p]])\<rparr>"
  have len: "length months = 12"
    using twelve by (auto simp: months_def split: option.splits)
  have k: "k < 12" "int k = month d - 1"
    using lo hi by (simp_all add: k_def)
  have idx: "py_index (length months) (month d - 1) = Inr k"
    using lo hi by (simp add: py_index_def len k_def)
  have run: "bucket_append s p = Inr s'"
    using d idx by (simp add: bucket_append_def Let_def months_def [symmetric] s'_def)
  have old: "bucket s (year d) m = (if m < 12 then months ! m else [])" for m
    using twelve by (auto simp: bucket_def months_def split: option.splits)
  have new: "bucket s' (year d) m =
      (if m < 12 then (if m = k then months ! k @ [p] else months ! m) else [])" for m
    using len k(1) by (simp add: bucket_def s'_def)
  have other: "bucket s' y m = bucket s y m" if "y \<noteq> year d" for y m
    using that by (simp add: bucket_def s'_def)
  have bel: "belongs p y m \<longleftrightarrow> y = year d \<and> m = k" for y m
    using d k(2) by (auto simp: belongs_def)
  have "bucket s' y m = bucket s y m @ (if belongs p y m then [p] else [])" for y m
  proof (cases "y = year d")
    case True
    then show ?thesis
      using k(1) by (simp add: old new bel)
  next
    case False
    then show ?thesis
      by (simp add: other bel)
  qed
  moreover have "\<forall>y ms. PAYMENTS_BY_YEAR s' y = Some ms \<longrightarrow> length ms = 12"
    using twelve len by (auto simp: s'_def)
  moreover have "ALL_PAYMENTS s' = ALL_PAYMENTS s"
    by (simp add: s'_def)
  ultimately show ?thesis
    using run by blast
qed

lemma bucket_all_ok:
  "\<forall>y months. PAYMENTS_BY_YEAR s y = Some months \<longrightarrow> length months = 12 \<Longrightarrow>
   \<forall>p \<in> set ps. dated p \<Longrightarrow>
   \<exists>s'. bucket_all s ps = Inr s' \<and> ALL_PAYMENTS s' = ALL_PAYMENTS s \<and>
     (\<forall>y months. PAYMENTS_BY_YEAR s' y = Some months \<longrightarrow> length months = 12) \<and>
     (\<forall>y m. bucket s' y m = bucket s y m @ filter (\<lambda>p. belongs p y m) ps)"
proof (induction ps arbitrary: s)
  case Nil
  then show ?case by simp
next
  case (Cons p ps)
  from Cons.prems have "dated p" by simp
  from bucket_append_ok [OF Cons.prems(1) this]
  obtain s1 where s1: "bucket_append s p = Inr s1" "ALL_PAYMENTS s1 = ALL_PAYMENTS s"
    "\<forall>y months. PAYMENTS_BY_YEAR s1 y = Some months \<longrightarrow> length months = 12"
    "\<forall>y m. bucket s1 y m = bucket s y m @ (if belongs p y m then [p] else [])"
    by blast
  from Cons.prems have "\<forall>p \<in> set ps. dated p" by simp
  from Cons.IH [OF s1(3) this]
  obtain s' where s': "bucket_all s1 ps = Inr s'" "ALL_PAYMENTS s' = ALL_PAYMENTS s1"
    "\<forall>y months. PAYMENTS_BY_YEAR s' y = Some months \<longrightarrow> length months = 12"
    "\<forall>y m. bucket s' y m = bucket s1 y m @ filter (\<lambda>p. belongs p y m) ps"
    by blast
  have "bucket_all s (p # ps) = Inr s'"
    using s1(1) s'(1) by simp
  moreover have "ALL_PAYMENTS s' = ALL_PAYMENTS s"
    using s1(2) s'(2) by simp
  moreover have "\<forall>y m. bucket s' y m = bucket s y m @ filter (\<lambda>p. belongs p y m) (p # ps)"
    using s1(4) s'(4) by simp
  ultimately show ?case
    using s'(3) by blast
qed

lemma consistent_init: "consistent init_state"
  by (simp add: consistent_def init_state_def bucket_def)

section \<open>The buckets: the claim\<close>

text \<open>
  C9. Take a consistent state (the empty one is) and a batch of dated payments whose
  categorisation returns. Then \<open>process_payments\<close> returns; the new state is consistent
  again; the global list has grown by the categorised batch; and every payment of the
  batch is in the bucket with year key \<open>date.year\<close> and month index \<open>date.month - 1\<close>
  and in no other bucket.
\<close>

theorem process_payments_consistent:
  assumes "consistent s"
    and "associate_all known_ibans keywords ps = Inr ps'"
    and "\<forall>p \<in> set ps. dated p"
  shows "\<exists>s'. process_payments known_ibans keywords s ps = Inr s' \<and> consistent s' \<and>
     ALL_PAYMENTS s' = ALL_PAYMENTS s @ ps' \<and>
     (\<forall>p \<in> set ps'. \<exists>d. date p = Some d \<and>
        p \<in> set (bucket s' (year d) (nat (month d - 1))) \<and>
        (\<forall>y m. p \<in> set (bucket s' y m) \<longrightarrow> y = year d \<and> int m = month d - 1))"
proof -
  let ?s0 = "s\<lparr>ALL_PAYMENTS := ALL_PAYMENTS s @ ps'\<rparr>"
  from assms(1) have twelve: "\<forall>y months. PAYMENTS_BY_YEAR s y = Some months \<longrightarrow> length months = 12"
    and home: "\<forall>y m p. p \<in> set (bucket s y m) \<longrightarrow> belongs p y m"
    and old_dated: "\<forall>p \<in> set (ALL_PAYMENTS s). dated p"
    and counts: "\<forall>p y m. belongs p y m \<longrightarrow>
      count_list (bucket s y m) p = count_list (ALL_PAYMENTS s) p"
    by (simp_all add: consistent_def)
  from associate_all_dated [OF assms(2,3)] have new_dated: "\<forall>p \<in> set ps'. dated p" .
  have same: "bucket ?s0 y m = bucket s y m" for y m
    by (simp add: bucket_def)
  from twelve have "\<forall>y months. PAYMENTS_BY_YEAR ?s0 y = Some months \<longrightarrow> length months = 12"
    by simp
  from bucket_all_ok [OF this new_dated]
  obtain s' where run: "bucket_all ?s0 ps' = Inr s'"
    and all: "ALL_PAYMENTS s' = ALL_PAYMENTS s @ ps'"
    and twelve': "\<forall>y months. PAYMENTS_BY_YEAR s' y = Some months \<longrightarrow> length months = 12"
    and buckets: "\<forall>y m. bucket s' y m = bucket s y m @ filter (\<lambda>p. belongs p y m) ps'"
    by (auto simp: same)
  have home': "\<forall>y m p. p \<in> set (bucket s' y m) \<longrightarrow> belongs p y m"
    using home by (auto simp: buckets)
  have dated': "\<forall>p \<in> set (ALL_PAYMENTS s'). dated p"
    using old_dated new_dated by (auto simp: all)
  have counts': "\<forall>p y m. belongs p y m \<longrightarrow>
      count_list (bucket s' y m) p = count_list (ALL_PAYMENTS s') p"
    using counts by (simp add: buckets all count_list_filter)
  have cons: "consistent s'"
    using twelve' home' dated' counts' by (simp add: consistent_def)
  have each: "\<exists>d. date p = Some d \<and> p \<in> set (bucket s' (year d) (nat (month d - 1))) \<and>
        (\<forall>y m. p \<in> set (bucket s' y m) \<longrightarrow> y = year d \<and> int m = month d - 1)"
    if p: "p \<in> set ps'" for p
  proof -
    from p new_dated have "dated p" by simp
    then obtain d where d: "date p = Some d"
      by (auto simp: dated_def split: option.splits)
    from dated_belongs [OF \<open>dated p\<close> d] p
    have "p \<in> set (bucket s' (year d) (nat (month d - 1)))"
      by (simp add: buckets)
    moreover have "y = year d \<and> int m = month d - 1" if "p \<in> set (bucket s' y m)" for y m
    proof -
      from home' that have "belongs p y m" by blast
      with d show ?thesis by (simp add: belongs_def)
    qed
    ultimately show ?thesis
      using d by blast
  qed
  have "process_payments known_ibans keywords s ps = Inr s'"
    using assms(2) run by (simp add: process_payments_def)
  with cons all each show ?thesis
    by blast
qed

theorem process_payments_consistent_witness:
  "\<exists>s'. process_payments [''DE00'' \<mapsto> ''Salary''] [] init_state
       [Payment\<lparr>date := Some \<lparr>year = 2023, month = 1, day = 5\<rparr>, iban := Some ''DE00''\<rparr>] = Inr s' \<and>
     consistent s' \<and>
     ALL_PAYMENTS s' = ALL_PAYMENTS init_state @
       [Payment\<lparr>date := Some \<lparr>year = 2023, month = 1, day = 5\<rparr>, iban := Some ''DE00'',
          category := Some ''Salary''\<rparr>] \<and>
     (\<forall>p \<in> set [Payment\<lparr>date := Some \<lparr>year = 2023, month = 1, day = 5\<rparr>, iban := Some ''DE00'',
          category := Some ''Salary''\<rparr>].
        \<exists>d. date p = Some d \<and>
          p \<in> set (bucket s' (year d) (nat (month d - 1))) \<and>
          (\<forall>y m. p \<in> set (bucket s' y m) \<longrightarrow> y = year d \<and> int m = month d - 1))"
proof -
  have h2: "associate_all [''DE00'' \<mapsto> ''Salary''] []
      [Payment\<lparr>date := Some \<lparr>year = 2023, month = 1, day = 5\<rparr>, iban := Some ''DE00''\<rparr>] =
     Inr [Payment\<lparr>date := Some \<lparr>year = 2023, month = 1, day = 5\<rparr>, iban := Some ''DE00'',
          category := Some ''Salary''\<rparr>]"
    by (simp add: associate_category_def Let_def Payment_def)
  have h3: "\<forall>p \<in> set [Payment\<lparr>date := Some \<lparr>year = 2023, month = 1, day = 5\<rparr>,
      iban := Some ''DE00''\<rparr>]. dated p"
    by (simp add: dated_def Payment_def)
  show ?thesis
    by (rule process_payments_consistent [OF consistent_init h2 h3])
qed

section \<open>The stacked bars: lemmas\<close>














section \<open>The stacked bars: the claims\<close>





end
